theory Spec2Isabelle
  imports Complex_Main "HOL-Library.Word" "HOL-Library.AList"
begin

unbundle bit_operations_syntax

section \<open>Data model of apps/blockchain/server.js\<close>

text \<open>
  The node keeps its state in module-level variables (chain, mempool, utxo, seenTx,
  seenBlockHash, mempoolSpent, config).  They are the fields of the record \<open>state\<close>;
  every function of the source that reads or writes them takes the state and returns the
  new one.  A thrown \<open>Error(msg)\<close> is the value \<open>Inl (Error msg)\<close>.

  JavaScript numbers are modelled as \<open>int\<close>: the model is exact for integer amounts,
  heights and timestamps below \<open>2^53\<close>.  BigInt values are \<open>int\<close> as well.  The
  \<open>bits\<close> field is a 32-bit word, as \<open>>>> 0\<close> makes it.  Strings are byte strings.
  A transaction id that is absent, null or empty (all falsy in \<open>!t.id\<close>) is the empty
  string.  The mempool object is the list of its entries in insertion order, which is
  the order of \<open>Object.values\<close> for ids that are not array indices; property names that
  every object inherits are not ids here.  Writing files, logging and broadcasting to
  peers are left out: they do not change the state.
\<close>

datatype error = Error string

record txInput =
  in_txid :: string
  in_index :: int
  in_pubKey :: string
  in_sig :: string

record txOutput =
  out_address :: string
  out_amount :: int

record tx =
  tx_id :: string
  tx_isCoinbase :: bool
  tx_inputs :: "txInput list"
  tx_outputs :: "txOutput list"

record block =
  blk_index :: int
  blk_previousHash :: string
  blk_timestamp :: int
  blk_transactions :: "tx list"
  blk_merkleRoot :: string
  blk_nonce :: int
  blk_bits :: "32 word"

record utxoEntry =
  ut_amount :: int
  ut_address :: string
  ut_blockHeight :: int
  ut_isCoinbase :: bool

record config =
  adjustEvery :: int
  targetBlockTimeSec :: int
  blockSubsidy :: int
  halvingInterval :: int
  coinbaseMaturity :: int
  maxBlockTx :: int
  bits :: "32 word"

type_synonym utxoMap = "string \<rightharpoonup> utxoEntry"

record state =
  st_chain :: "block list"
  st_mempool :: "(string \<times> tx) list"
  st_utxo :: utxoMap
  st_seenTx :: "string set"
  st_seenBlockHash :: "string set"
  st_mempoolSpent :: "string set"
  st_config :: config

text \<open>
  The primitives the source takes from Node's \<open>crypto\<close>, from \<open>elliptic\<close> and from
  the engine are parameters: SHA-256 and RIPEMD-160 with hexadecimal output over a byte
  string, ECDSA verification (\<open>None\<close> when \<open>keyFromPublic\<close> throws, otherwise the
  verdict of \<open>key.verify\<close>, an exception inside it counting as \<open>False\<close>), and
  \<open>JSON.stringify\<close> of the two canonical copies of a transaction.
\<close>

record env =
  sha256Hex :: "string \<Rightarrow> string"
  ripemd160Hex :: "string \<Rightarrow> string"
  ecVerify :: "string \<Rightarrow> string \<Rightarrow> string \<Rightarrow> bool option"
  jsonIdCopy :: "(string \<times> int \<times> string) list \<Rightarrow> (string \<times> int) list \<Rightarrow> string"
  jsonSigCopy :: "(string \<times> int) list \<Rightarrow> (string \<times> int) list \<Rightarrow> string"

section \<open>Strings, hexadecimal and decimal\<close>

definition hexDigit :: "nat \<Rightarrow> char" where
  "hexDigit d = ''0123456789abcdef'' ! d"

text \<open>\<open>n.toString(16)\<close> for a non-negative BigInt.\<close>

fun toString16 :: "nat \<Rightarrow> string" where
  "toString16 n = (if n < 16 then [hexDigit n] else toString16 (n div 16) @ [hexDigit (n mod 16)])"

declare toString16.simps [simp del]

text \<open>
  The decimal text of an integer in a template literal; the decimal digits are the first
  ten of \<open>hexDigit\<close>.
\<close>

fun showNat :: "nat \<Rightarrow> string" where
  "showNat n = (if n < 10 then [hexDigit n] else showNat (n div 10) @ [hexDigit (n mod 10)])"

declare showNat.simps [simp del]

definition showInt :: "int \<Rightarrow> string" where
  "showInt i = (if i < 0 then CHR ''-'' # showNat (nat (- i)) else showNat (nat i))"

definition hexVal :: "char \<Rightarrow> nat option" where
  "hexVal c = (let n = (of_char c :: nat) in
     if 48 \<le> n \<and> n \<le> 57 then Some (n - 48)
     else if 97 \<le> n \<and> n \<le> 102 then Some (n - 87)
     else if 65 \<le> n \<and> n \<le> 70 then Some (n - 55)
     else None)"

fun hexPrefix :: "nat \<Rightarrow> string \<Rightarrow> nat" where
  "hexPrefix acc [] = acc"
| "hexPrefix acc (c # cs) =
     (case hexVal c of None \<Rightarrow> acc | Some d \<Rightarrow> hexPrefix (16 * acc + d) cs)"

text \<open>
  \<open>parseInt(s, 16)\<close> on a string of digits: the value of the longest hexadecimal
  prefix, \<open>None\<close> (NaN) when there is none.
\<close>

definition parseInt16 :: "string \<Rightarrow> nat option" where
  "parseInt16 s = (case s of [] \<Rightarrow> None
     | c # _ \<Rightarrow> (case hexVal c of None \<Rightarrow> None | Some _ \<Rightarrow> Some (hexPrefix 0 s)))"

text \<open>The 32-bit operand of \<open>&\<close>: NaN becomes 0.\<close>

definition toInt32 :: "nat option \<Rightarrow> 32 word" where
  "toInt32 v = (case v of None \<Rightarrow> 0 | Some n \<Rightarrow> word_of_nat n)"

text \<open>\<open>BigInt('0x' + h)\<close>: a SyntaxError (\<open>None\<close>) unless \<open>h\<close> is a non-empty digit string.\<close>

definition bigIntOfHex :: "string \<Rightarrow> int option" where
  "bigIntOfHex h = (if h = [] \<or> list_ex (\<lambda>c. hexVal c = None) h then None
     else Some (int (hexPrefix 0 h)))"

text \<open>
  \<open>Buffer.from(s, 'hex')\<close> decodes pairs of digits and stops at the first pair that is
  not hexadecimal; \<open>buf.toString('hex')\<close> writes two lowercase digits per byte.
\<close>

fun bufferFromHex :: "string \<Rightarrow> string" where
  "bufferFromHex (a # b # cs) =
     (case hexVal a of None \<Rightarrow> []
      | Some x \<Rightarrow> (case hexVal b of None \<Rightarrow> []
          | Some y \<Rightarrow> char_of (16 * x + y) # bufferFromHex cs))"
| "bufferFromHex cs = []"

definition bufferToHex :: "string \<Rightarrow> string" where
  "bufferToHex bs =
     concat (map (\<lambda>c. [hexDigit ((of_char c :: nat) div 16), hexDigit ((of_char c :: nat) mod 16)]) bs)"

section \<open>Utils\<close>

definition txIdFor :: "env \<Rightarrow> tx \<Rightarrow> string" where
  "txIdFor e t =
     sha256Hex e (jsonIdCopy e
       (map (\<lambda>i. (in_txid i, in_index i, in_pubKey i)) (tx_inputs t))
       (map (\<lambda>ou. (out_address ou, out_amount ou)) (tx_outputs t)))"

definition headerHash :: "env \<Rightarrow> block \<Rightarrow> string" where
  "headerHash e b =
     sha256Hex e (showInt (blk_index b) @ ''|'' @ blk_previousHash b @ ''|''
       @ showInt (blk_timestamp b) @ ''|'' @ blk_merkleRoot b @ ''|''
       @ showInt (blk_nonce b) @ ''|'' @ showNat (unat (blk_bits b)))"

fun merklePairs :: "env \<Rightarrow> string list \<Rightarrow> string list" where
  "merklePairs e (a # b # rest) = bufferFromHex (sha256Hex e (a @ b)) # merklePairs e rest"
| "merklePairs e rest = []"

definition merkleLayer :: "env \<Rightarrow> string list \<Rightarrow> string list" where
  "merkleLayer e nodes =
     merklePairs e (if odd (length nodes) then nodes @ [last nodes] else nodes)"

text \<open>
  The \<open>while (nodes.length > 1)\<close> loop: a layer of \<open>n > 1\<close> nodes is followed by one of
  \<open>(n + 1) div 2\<close> nodes, so the loop ends.
\<close>

function merkleLoop :: "env \<Rightarrow> string list \<Rightarrow> string list" where
  "merkleLoop e nodes = (if 1 < length nodes then merkleLoop e (merkleLayer e nodes) else nodes)"
  by pat_completeness auto
termination
proof (relation "measure (\<lambda>(e, nodes). length nodes)")
  show "wf (measure (\<lambda>(e :: env, nodes :: string list). length nodes))"
    by simp
next
  fix e :: env and nodes :: "string list"
  assume long: "1 < length nodes"
  have halves: "length (merklePairs e xs) = length xs div 2" for xs
    by (induction e xs rule: merklePairs.induct) simp_all
  have "length (merkleLayer e nodes) < length nodes"
    using long by (simp add: merkleLayer_def halves) presburger
  then show "((e, merkleLayer e nodes), (e, nodes)) \<in> measure (\<lambda>(e, nodes). length nodes)"
    by simp
qed

declare merkleLoop.simps [simp del]

definition merkleRoot :: "env \<Rightarrow> string list \<Rightarrow> string" where
  "merkleRoot e txids =
     (if txids = [] then sha256Hex e []
      else case merkleLoop e (map bufferFromHex txids) of
             [] \<Rightarrow> []
           | n # _ \<Rightarrow> bufferToHex n)"


subsection \<open>Compact target bits\<close>

definition bitsToTarget :: "32 word \<Rightarrow> int" where
  "bitsToTarget b =
     (let size = unat (drop_bit 24 b AND 0xff);
          mant = uint (b AND 0x007fffff)
      in if size \<le> 3 then mant div 2 ^ (8 * (3 - size))
         else mant * 2 ^ (8 * (size - 3)))"

definition targetToBits :: "int \<Rightarrow> 32 word" where
  "targetToBits target =
     (if target \<le> 0 then 0
      else
        let hex0 = toString16 (nat target);
            hex = (if odd (length hex0) then CHR ''0'' # hex0 else hex0);
            size0 = (length hex + 1) div 2;
            (mantBytes, size) =
              (if size0 \<le> 3 then (replicate (6 - length hex) CHR ''0'' @ hex, size0)
               else
                 let mb = take 6 hex in
                 if toInt32 (parseInt16 (take 2 mb)) AND 0x80 \<noteq> 0
                 then (''00'' @ take 4 mb, size0 + 1)
                 else (mb, size0));
            mant = toInt32 (parseInt16 mantBytes) AND 0x007fffff
        in push_bit 24 (word_of_nat size) OR mant)"

definition hashMeetsBits :: "string \<Rightarrow> 32 word \<Rightarrow> error + bool" where
  "hashMeetsBits hexHash b =
     (case bigIntOfHex hexHash of
        None \<Rightarrow> Inl (Error ''SyntaxError: Cannot convert to a BigInt'')
      | Some h \<Rightarrow> Inr (h \<le> bitsToTarget b))"

section \<open>Persistence: the UTXO map\<close>

definition outpointKey :: "string \<Rightarrow> int \<Rightarrow> string" where
  "outpointKey t i = t @ '':'' @ showInt i"

definition inputKey :: "txInput \<Rightarrow> string" where
  "inputKey i = outpointKey (in_txid i) (in_index i)"

text \<open>\<open>for (const i of tx.inputs || []) utxo.delete(...)\<close>\<close>

definition spendInputs :: "utxoMap \<Rightarrow> txInput list \<Rightarrow> utxoMap" where
  "spendInputs m ins = fold (\<lambda>i u. u(inputKey i := None)) ins m"

text \<open>\<open>tx.outputs.forEach((o, idx) => utxo.set(`${tx.id}:${idx}`, {...}))\<close>\<close>

definition addOutputs :: "utxoMap \<Rightarrow> string \<Rightarrow> int \<Rightarrow> bool \<Rightarrow> txOutput list \<Rightarrow> utxoMap" where
  "addOutputs m tid height cb outs =
     fold (\<lambda>(ou, idx) u.
             u(outpointKey tid (int idx) \<mapsto>
                 \<lparr>ut_amount = out_amount ou, ut_address = out_address ou,
                  ut_blockHeight = height, ut_isCoinbase = cb\<rparr>))
          (zip outs [0 ..< length outs]) m"

definition applyTxUTXO :: "int \<Rightarrow> utxoMap \<Rightarrow> tx \<Rightarrow> utxoMap" where
  "applyTxUTXO height m t =
     addOutputs (spendInputs m (tx_inputs t)) (tx_id t) height (tx_isCoinbase t) (tx_outputs t)"

definition rebuildUTXO :: "block list \<Rightarrow> utxoMap" where
  "rebuildUTXO ch =
     fold (\<lambda>b m. fold (\<lambda>t u. applyTxUTXO (blk_index b) u t) (blk_transactions b) m)
          ch Map.empty"

section \<open>Consensus rules\<close>

text \<open>
  \<open>getBlockReward\<close>: \<open>Math.floor(height / halvingInterval)\<close> is \<open>div\<close> for a non-zero
  interval, \<open>Math.pow(2, h)\<close> of a negative \<open>h\<close> multiplies, and the floor of the
  quotient is \<open>div\<close> again.  A zero interval makes the quotient infinite or NaN in the
  source; the model is the source for \<open>halvingInterval \<noteq> 0\<close>.
\<close>

definition getBlockReward :: "config \<Rightarrow> int \<Rightarrow> int" where
  "getBlockReward cfg height =
     (let halvings = height div halvingInterval cfg;
          r = (if 0 \<le> halvings then blockSubsidy cfg div 2 ^ nat halvings
               else blockSubsidy cfg * 2 ^ nat (- halvings))
      in max r 0)"

definition pubKeyToAddress :: "env \<Rightarrow> string \<Rightarrow> string" where
  "pubKeyToAddress e pubKeyHex =
     ripemd160Hex e (bufferFromHex (sha256Hex e (bufferFromHex pubKeyHex)))"

text \<open>
  \<open>verifyInputSig(tx, inputIndex)\<close>; both callers pass the index of the input they hold,
  which is the second argument here.
\<close>

definition verifyInputSig :: "env \<Rightarrow> tx \<Rightarrow> txInput \<Rightarrow> error + unit" where
  "verifyInputSig e t inp =
     (if in_pubKey inp = [] \<or> in_sig inp = [] then Inl (Error ''missing pubKey or sig'')
      else
        let msg = sha256Hex e (jsonSigCopy e
                    (map (\<lambda>i. (in_txid i, in_index i)) (tx_inputs t))
                    (map (\<lambda>ou. (out_address ou, out_amount ou)) (tx_outputs t)))
        in case ecVerify e (in_pubKey inp) msg (in_sig inp) of
             None \<Rightarrow> Inl (Error ''Unknown point format'')
           | Some ok \<Rightarrow> if ok then Inr () else Inl (Error ''bad signature''))"

text \<open>The input loop of \<open>validateTx\<close>, with the set \<open>used\<close> and the running \<open>inSum\<close>.\<close>

fun validateTxInputs ::
  "env \<Rightarrow> config \<Rightarrow> utxoMap \<Rightarrow> int \<Rightarrow> tx \<Rightarrow> string set \<Rightarrow> int \<Rightarrow> txInput list \<Rightarrow> error + int" where
  "validateTxInputs e cfg u currentHeight t used inSum [] = Inr inSum"
| "validateTxInputs e cfg u currentHeight t used inSum (i # rest) =
     (let k = inputKey i in
      if k \<in> used then Inl (Error ''double spend in tx'')
      else case u k of
        None \<Rightarrow> Inl (Error (''missing UTXO '' @ k))
      | Some entry \<Rightarrow>
          if ut_isCoinbase entry \<and> currentHeight - ut_blockHeight entry < coinbaseMaturity cfg
          then Inl (Error ''coinbase not mature'')
          else case verifyInputSig e t i of
            Inl err \<Rightarrow> Inl err
          | Inr _ \<Rightarrow>
              if pubKeyToAddress e (in_pubKey i) \<noteq> ut_address entry
              then Inl (Error ''pubKey does not match UTXO address'')
              else validateTxInputs e cfg u currentHeight t (insert k used)
                     (inSum + ut_amount entry) rest)"

text \<open>The output loop of \<open>validateTx\<close>.\<close>

fun validateTxOutputs :: "int \<Rightarrow> txOutput list \<Rightarrow> error + int" where
  "validateTxOutputs outSum [] = Inr outSum"
| "validateTxOutputs outSum (ou # rest) =
     (if out_amount ou \<le> 0 then Inl (Error ''output <= 0'')
      else validateTxOutputs (outSum + out_amount ou) rest)"

definition validateTx :: "env \<Rightarrow> config \<Rightarrow> utxoMap \<Rightarrow> tx \<Rightarrow> int \<Rightarrow> error + unit" where
  "validateTx e cfg u t currentHeight =
     (if tx_isCoinbase t then
        (if tx_inputs t \<noteq> [] then Inl (Error ''coinbase must have no inputs'')
         else if list_ex (\<lambda>ou. out_amount ou \<le> 0) (tx_outputs t)
         then Inl (Error ''coinbase bad amount'')
         else Inr ())
      else case validateTxInputs e cfg u currentHeight t {} 0 (tx_inputs t) of
        Inl err \<Rightarrow> Inl err
      | Inr inSum \<Rightarrow>
          (case validateTxOutputs 0 (tx_outputs t) of
             Inl err \<Rightarrow> Inl err
           | Inr outSum \<Rightarrow>
               if inSum < outSum then Inl (Error ''inputs < outputs'') else Inr ()))"


text \<open>The input loop of \<open>validateBlock\<close> for one spend, over the temporary map.\<close>

fun spendBlockInputs ::
  "env \<Rightarrow> config \<Rightarrow> int \<Rightarrow> tx \<Rightarrow> utxoMap \<Rightarrow> int \<Rightarrow> txInput list \<Rightarrow> error + (int \<times> utxoMap)" where
  "spendBlockInputs e cfg blockIndex t temp inSum [] = Inr (inSum, temp)"
| "spendBlockInputs e cfg blockIndex t temp inSum (i # rest) =
     (let k = inputKey i in
      case temp k of
        None \<Rightarrow> Inl (Error (''missing input '' @ k))
      | Some ent \<Rightarrow>
          if ut_isCoinbase ent \<and> blockIndex - ut_blockHeight ent < coinbaseMaturity cfg
          then Inl (Error ''coinbase not mature'')
          else case verifyInputSig e t i of
            Inl err \<Rightarrow> Inl err
          | Inr _ \<Rightarrow>
              if pubKeyToAddress e (in_pubKey i) \<noteq> ut_address ent
              then Inl (Error ''pubKey!=address'')
              else spendBlockInputs e cfg blockIndex t (temp(k := None))
                     (inSum + ut_amount ent) rest)"

text \<open>
  The transaction loop of \<open>validateBlock\<close>, with \<open>coinbaseCount\<close>, \<open>feeTotal\<close> and the
  temporary map \<open>temp\<close>.
\<close>

fun walkBlockTxs ::
  "env \<Rightarrow> config \<Rightarrow> int \<Rightarrow> nat \<Rightarrow> int \<Rightarrow> utxoMap \<Rightarrow> tx list \<Rightarrow> error + (nat \<times> int \<times> utxoMap)" where
  "walkBlockTxs e cfg blockIndex coinbaseCount feeTotal temp [] =
     Inr (coinbaseCount, feeTotal, temp)"
| "walkBlockTxs e cfg blockIndex coinbaseCount feeTotal temp (t # rest) =
     (if tx_isCoinbase t then
        (if tx_inputs t \<noteq> [] then Inl (Error ''coinbase has inputs'')
         else walkBlockTxs e cfg blockIndex (coinbaseCount + 1) feeTotal
                (addOutputs temp (tx_id t) blockIndex True (tx_outputs t)) rest)
      else case spendBlockInputs e cfg blockIndex t temp 0 (tx_inputs t) of
        Inl err \<Rightarrow> Inl err
      | Inr (inSum, temp') \<Rightarrow>
          (let outSum = sum_list (map out_amount (tx_outputs t)) in
           if inSum < outSum then Inl (Error ''tx spends more than inputs'')
           else walkBlockTxs e cfg blockIndex coinbaseCount (feeTotal + (inSum - outSum))
                  (addOutputs temp' (tx_id t) blockIndex False (tx_outputs t)) rest))"

text \<open>\<open>validateBlock(block)\<close>; \<open>now\<close> is \<open>Date.now()\<close>.\<close>

definition validateBlock :: "env \<Rightarrow> int \<Rightarrow> state \<Rightarrow> block \<Rightarrow> error + unit" where
  "validateBlock e now st b =
     (if st_chain st = [] \<and> blk_index b \<noteq> 0 then Inl (Error ''genesis index must be 0'')
      else if st_chain st \<noteq> [] \<and> blk_index b \<noteq> blk_index (last (st_chain st)) + 1
      then Inl (Error ''bad index'')
      else if st_chain st \<noteq> [] \<and> blk_previousHash b \<noteq> headerHash e (last (st_chain st))
      then Inl (Error ''prev hash mismatch'')
      else if blk_timestamp b > now + 2 * 60 * 60 * 1000
      then Inl (Error ''timestamp too far in future'')
      else if merkleRoot e (map tx_id (blk_transactions b)) \<noteq> blk_merkleRoot b
      then Inl (Error ''merkle mismatch'')
      else case hashMeetsBits (headerHash e b) (blk_bits b) of
        Inl err \<Rightarrow> Inl err
      | Inr meets \<Rightarrow>
          if meets = False then Inl (Error ''insufficient PoW'')
          else case walkBlockTxs e (st_config st) (blk_index b) 0 0 (st_utxo st)
                      (blk_transactions b) of
            Inl err \<Rightarrow> Inl err
          | Inr (coinbaseCount, feeTotal, temp) \<Rightarrow>
              if coinbaseCount \<noteq> 1 then Inl (Error ''block must have exactly 1 coinbase'')
              else
                let expected = getBlockReward (st_config st) (blk_index b) + feeTotal in
                case find tx_isCoinbase (blk_transactions b) of
                  None \<Rightarrow> Inl (Error ''TypeError: coinbase is undefined'')
                | Some coinbase \<Rightarrow>
                    let cbOut = sum_list (map out_amount (tx_outputs coinbase)) in
                    if cbOut > expected
                    then Inl (Error (''coinbase too large: '' @ showInt cbOut @ '' > ''
                                      @ showInt expected))
                    else Inr ())"

text \<open>One turn of the loop of \<open>applyBlock\<close>.\<close>

definition applyTx :: "int \<Rightarrow> tx \<Rightarrow> state \<Rightarrow> state" where
  "applyTx height t st =
     (let st1 = st\<lparr>st_utxo := applyTxUTXO height (st_utxo st) t\<rparr> in
      if map_of (st_mempool st) (tx_id t) = None then st1
      else st1\<lparr>st_mempoolSpent := st_mempoolSpent st - set (map inputKey (tx_inputs t)),
               st_mempool := AList.delete (tx_id t) (st_mempool st)\<rparr>)"

definition applyBlock :: "env \<Rightarrow> state \<Rightarrow> block \<Rightarrow> state" where
  "applyBlock e st b =
     (let st1 = fold (applyTx (blk_index b)) (blk_transactions b) st in
      st1\<lparr>st_chain := st_chain st1 @ [b],
           st_seenBlockHash := insert (headerHash e b) (st_seenBlockHash st1)\<rparr>)"

subsection \<open>Retargeting\<close>

text \<open>
  The double arithmetic of \<open>maybeRetarget\<close> is taken over the reals: \<open>actual\<close>,
  \<open>expected\<close>, the clamped \<open>ratio\<close> and \<open>Math.round(1 / ratio * 1e6)\<close> (round half up).
  \<open>actual || 1\<close> replaces a zero \<open>actual\<close> only.
\<close>

definition retargetRatio :: "config \<Rightarrow> int \<Rightarrow> int \<Rightarrow> real" where
  "retargetRatio cfg firstTs lastTs =
     (let actual = of_int (lastTs - firstTs) / 1000;
          expected = of_int (adjustEvery cfg * targetBlockTimeSec cfg);
          ratio = expected / (if actual = 0 then 1 else actual);
          ratio1 = (if ratio < 1 / 4 then 1 / 4 else ratio)
      in if ratio1 > 4 then 4 else ratio1)"

definition scaleTarget :: "real \<Rightarrow> int \<Rightarrow> int" where
  "scaleTarget ratio curTarget =
     (let d = \<lfloor>1 / ratio * 1000000 + 1 / 2\<rfloor>;
          newTarget = (curTarget div d) * 1000000
      in if newTarget \<le> 0 then 1 else newTarget)"

definition maybeRetarget :: "state \<Rightarrow> error + state" where
  "maybeRetarget st =
     (let h = int (length (st_chain st)); cfg = st_config st; a = adjustEvery cfg in
      if h = 0 \<or> a = 0 \<or> h mod \<bar>a\<bar> \<noteq> 0 then Inr st
      else if a < 0 then Inl (Error ''TypeError: first is undefined'')
      else
        let lastB = st_chain st ! nat (h - 1);
            firstB = st_chain st ! nat (h - a);
            ratio = retargetRatio cfg (blk_timestamp firstB) (blk_timestamp lastB);
            curTarget = bitsToTarget (bits cfg);
            newTarget = scaleTarget ratio curTarget;
            newBits = targetToBits newTarget
        in Inr (st\<lparr>st_config := cfg\<lparr>bits := newBits\<rparr>\<rparr>))"


section \<open>API and peer messages\<close>

datatype txResponse = TxOk string | TxDuplicate string | TxRejected error

datatype blockResponse = BlockOk int | BlockRejected error

text \<open>\<open>if (!t.id) t.id = txIdFor(t)\<close>\<close>

definition fillId :: "env \<Rightarrow> tx \<Rightarrow> tx" where
  "fillId e t = (if tx_id t = [] then t\<lparr>tx_id := txIdFor e t\<rparr> else t)"

text \<open>
  \<open>app.post('/transactions')\<close>: \<open>TxOk id\<close> is the answer \<open>{ok, id}\<close>, \<open>TxDuplicate id\<close>
  the answer \<open>{ok, id, note: 'duplicate in mempool'}\<close>, \<open>TxRejected\<close> the status 400.
\<close>

definition postTransactions :: "env \<Rightarrow> state \<Rightarrow> tx \<Rightarrow> state \<times> txResponse" where
  "postTransactions e st t0 =
     (let t = fillId e t0 in
      case validateTx e (st_config st) (st_utxo st) t (int (length (st_chain st))) of
        Inl err \<Rightarrow> (st, TxRejected err)
      | Inr _ \<Rightarrow>
          if list_ex (\<lambda>i. inputKey i \<in> st_mempoolSpent st) (tx_inputs t)
          then (st, TxRejected (Error ''mempool double spend''))
          else if map_of (st_mempool st) (tx_id t) \<noteq> None then (st, TxDuplicate (tx_id t))
          else (st\<lparr>st_mempool := AList.update (tx_id t) t (st_mempool st),
                   st_mempoolSpent := st_mempoolSpent st \<union> set (map inputKey (tx_inputs t)),
                   st_seenTx := insert (tx_id t) (st_seenTx st)\<rparr>,
                TxOk (tx_id t)))"

text \<open>\<open>app.post('/blocks')\<close>\<close>

definition postBlocks :: "env \<Rightarrow> int \<Rightarrow> state \<Rightarrow> block \<Rightarrow> state \<times> blockResponse" where
  "postBlocks e now st b0 =
     (let b = b0\<lparr>blk_transactions := map (fillId e) (blk_transactions b0)\<rparr> in
      case validateBlock e now st b of
        Inl err \<Rightarrow> (st, BlockRejected err)
      | Inr _ \<Rightarrow>
          (let st1 = applyBlock e st b in
           case maybeRetarget st1 of
             Inl err \<Rightarrow> (st1, BlockRejected err)
           | Inr st2 \<Rightarrow> (st2, BlockOk (blk_index b))))"

text \<open>
  \<open>app.get('/block/candidate/:address')\<close>.  \<open>Object.values(mempool)\<close> lists the entries
  in insertion order; \<open>slice(0, n)\<close> counts a negative \<open>n\<close> from the end.
\<close>

definition sliceFrom0 :: "'a list \<Rightarrow> int \<Rightarrow> 'a list" where
  "sliceFrom0 xs n = (if n < 0 then take (nat (int (length xs) + n)) xs else take (nat n) xs)"

definition candidateFee :: "utxoMap \<Rightarrow> tx \<Rightarrow> int" where
  "candidateFee u t =
     (let inSum = sum_list (map (\<lambda>i. case u (inputKey i) of None \<Rightarrow> 0 | Some en \<Rightarrow> ut_amount en)
                              (tx_inputs t));
          outSum = sum_list (map out_amount (tx_outputs t))
      in if inSum > outSum then inSum - outSum else 0)"

definition candidate :: "env \<Rightarrow> int \<Rightarrow> state \<Rightarrow> string \<Rightarrow> error + block" where
  "candidate e now st addr =
     (if st_chain st = [] then Inl (Error ''TypeError: tip is undefined'')
      else
        let tip = last (st_chain st);
            idx = blk_index tip + 1;
            pool = sliceFrom0 (map snd (st_mempool st)) (maxBlockTx (st_config st));
            fee = sum_list (map (candidateFee (st_utxo st)) pool);
            cb0 = \<lparr>tx_id = [], tx_isCoinbase = True, tx_inputs = [],
                   tx_outputs = [\<lparr>out_address = addr,
                                   out_amount = getBlockReward (st_config st) idx + fee\<rparr>]\<rparr>;
            coinbase = cb0\<lparr>tx_id := txIdFor e cb0\<rparr>;
            txs = map (fillId e) (coinbase # pool)
        in Inr \<lparr>blk_index = idx, blk_previousHash = headerHash e tip, blk_timestamp = now,
                blk_transactions = txs, blk_merkleRoot = merkleRoot e (map tx_id txs),
                blk_nonce = 0, blk_bits = bits (st_config st)\<rparr>)"

text \<open>The handler of \<open>p2pOnMessage\<close>; an exception is logged and the message dropped.\<close>

datatype p2pMsg = MsgTx tx | MsgBlock block | MsgGetTip | MsgTip

fun p2pOnMessage :: "env \<Rightarrow> int \<Rightarrow> state \<Rightarrow> p2pMsg \<Rightarrow> state" where
  "p2pOnMessage e now st (MsgTx t0) =
     (let t = fillId e t0 in
      if tx_id t \<in> st_seenTx st \<or> map_of (st_mempool st) (tx_id t) \<noteq> None then st
      else case validateTx e (st_config st) (st_utxo st) t (int (length (st_chain st))) of
        Inl err \<Rightarrow> st
      | Inr _ \<Rightarrow>
          if list_ex (\<lambda>i. inputKey i \<in> st_mempoolSpent st) (tx_inputs t) then st
          else st\<lparr>st_mempool := AList.update (tx_id t) t (st_mempool st),
                  st_mempoolSpent := st_mempoolSpent st \<union> set (map inputKey (tx_inputs t)),
                  st_seenTx := insert (tx_id t) (st_seenTx st)\<rparr>)"
| "p2pOnMessage e now st (MsgBlock b0) =
     (if headerHash e b0 \<in> st_seenBlockHash st then st
      else
        let b = b0\<lparr>blk_transactions := map (fillId e) (blk_transactions b0)\<rparr> in
        case validateBlock e now st b of
          Inl err \<Rightarrow> st
        | Inr _ \<Rightarrow>
            (let st1 = applyBlock e st b in
             case maybeRetarget st1 of Inl err \<Rightarrow> st1 | Inr st2 \<Rightarrow> st2))"
| "p2pOnMessage e now st MsgGetTip = st"
| "p2pOnMessage e now st MsgTip = st"

subsection \<open>Boot\<close>

definition genesisBlock :: "env \<Rightarrow> int \<Rightarrow> config \<Rightarrow> block" where
  "genesisBlock e now cfg =
     \<lparr>blk_index = 0, blk_previousHash = ''0'', blk_timestamp = now,
      blk_transactions =
        [\<lparr>tx_id = ''genesis'', tx_isCoinbase = True, tx_inputs = [],
          tx_outputs = [\<lparr>out_address = ''genesis'', out_amount = 0\<rparr>]\<rparr>],
      blk_merkleRoot = merkleRoot e [''genesis''], blk_nonce = 0, blk_bits = bits cfg\<rparr>"

text \<open>
  The callback of \<open>app.listen\<close>: \<open>loadBlocks()\<close> reads the blocks \<open>disk\<close> in height
  order, an empty chain gets the genesis block, and \<open>rebuildUTXO()\<close> replays the chain.
\<close>

definition boot :: "env \<Rightarrow> int \<Rightarrow> config \<Rightarrow> block list \<Rightarrow> state" where
  "boot e now cfg disk =
     (let ch = (if disk = [] then [genesisBlock e now cfg] else disk) in
      \<lparr>st_chain = ch, st_mempool = [], st_utxo = rebuildUTXO ch, st_seenTx = {},
       st_seenBlockHash = set (map (headerHash e) ch), st_mempoolSpent = {},
       st_config = cfg\<rparr>)"

text \<open>The states a node can be in: after boot, and after any request or peer message.\<close>

inductive reachable :: "env \<Rightarrow> state \<Rightarrow> bool" for e :: env where
  r_boot: "reachable e (boot e now cfg disk)"
| r_postTransactions: "reachable e st \<Longrightarrow> reachable e (fst (postTransactions e st t))"
| r_postBlocks: "reachable e st \<Longrightarrow> reachable e (fst (postBlocks e now st b))"
| r_p2p: "reachable e st \<Longrightarrow> reachable e (p2pOnMessage e now st msg)"


section \<open>Concrete instances\<close>

text \<open>The configuration literal of the source.\<close>

definition defaultConfig :: config where
  "defaultConfig =
     \<lparr>adjustEvery = 10, targetBlockTimeSec = 10, blockSubsidy = 5, halvingInterval = 100,
      coinbaseMaturity = 2, maxBlockTx = 25, bits = 0x1e00ffff\<rparr>"

text \<open>A chain given by the timestamps of its blocks, for the retargeter.\<close>

definition stampedBlock :: "int \<Rightarrow> block" where
  "stampedBlock ts =
     \<lparr>blk_index = 0, blk_previousHash = [], blk_timestamp = ts, blk_transactions = [],
      blk_merkleRoot = [], blk_nonce = 0, blk_bits = 0\<rparr>"

definition stampedState :: "config \<Rightarrow> int list \<Rightarrow> state" where
  "stampedState cfg tss =
     \<lparr>st_chain = map stampedBlock tss, st_mempool = [], st_utxo = Map.empty, st_seenTx = {},
      st_seenBlockHash = {}, st_mempoolSpent = {}, st_config = cfg\<rparr>"

text \<open>
  A stand-in for the primitives, for concrete instances: every digest is \<open>00\<close> and
  every signature verifies.
\<close>

definition exampleEnv :: env where
  "exampleEnv =
     \<lparr>sha256Hex = (\<lambda>bytes. ''00''), ripemd160Hex = (\<lambda>bytes. ''00''),
      ecVerify = (\<lambda>pub msg sg. Some True),
      jsonIdCopy = (\<lambda>ins outs. []), jsonSigCopy = (\<lambda>ins outs. [])\<rparr>"

text \<open>
  A node holding the genesis block and one unspent output of amount 7; a transaction
  spending it with a fee of 1; a spend with no inputs and no outputs; and three blocks at
  height 1: a coinbase paying 6 with the fee-paying spend, a coinbase paying 5 alone, and
  a coinbase paying 5 followed by 25 empty spends.
\<close>

definition exampleCoinbase :: "int \<Rightarrow> tx" where
  "exampleCoinbase amt =
     \<lparr>tx_id = ''c0'', tx_isCoinbase = True, tx_inputs = [],
      tx_outputs = [\<lparr>out_address = ''0a'', out_amount = amt\<rparr>]\<rparr>"

definition emptySpend :: tx where
  "emptySpend = \<lparr>tx_id = ''e0'', tx_isCoinbase = False, tx_inputs = [], tx_outputs = []\<rparr>"

definition blockOf :: "tx list \<Rightarrow> string \<Rightarrow> block" where
  "blockOf txs mroot =
     \<lparr>blk_index = 1, blk_previousHash = ''00'', blk_timestamp = 10000,
      blk_transactions = txs, blk_merkleRoot = mroot, blk_nonce = 0, blk_bits = 0x1e00ffff\<rparr>"

definition exampleSpend :: tx where
  "exampleSpend =
     \<lparr>tx_id = ''d0'', tx_isCoinbase = False,
      tx_inputs = [\<lparr>in_txid = ''aa'', in_index = 0, in_pubKey = ''02'', in_sig = ''03''\<rparr>],
      tx_outputs = [\<lparr>out_address = ''0b'', out_amount = 6\<rparr>]\<rparr>"

definition exampleState :: state where
  "exampleState =
     \<lparr>st_chain = [genesisBlock exampleEnv 0 defaultConfig], st_mempool = [],
      st_utxo = [''aa:0'' \<mapsto> \<lparr>ut_amount = 7, ut_address = ''00'', ut_blockHeight = 0,
                                ut_isCoinbase = False\<rparr>],
      st_seenTx = {}, st_seenBlockHash = {''00''}, st_mempoolSpent = {},
      st_config = defaultConfig\<rparr>"


definition coinbaseBlock :: block where
  "coinbaseBlock = blockOf [exampleCoinbase 5] ''c0''"

definition fullBlock :: block where
  "fullBlock = blockOf (exampleCoinbase 5 # replicate 25 emptySpend) ''00''"

section \<open>Fees as the specification states them\<close>




section \<open>Evaluation\<close>

lemma replicate_numeral_unfold: "replicate (numeral k) x = x # replicate (pred_numeral k) x"
  by (simp add: numeral_eq_Suc)

lemmas evalBits = targetToBits_def bitsToTarget_def toString16.simps hexDigit_def parseInt16_def
  hexVal_def toInt32_def Let_def replicate_numeral_unfold

lemmas evalRetarget = maybeRetarget_def stampedState_def stampedBlock_def defaultConfig_def
  retargetRatio_def scaleTarget_def

lemma exampleEnv_simps:
  "sha256Hex exampleEnv x = ''00''" "ripemd160Hex exampleEnv x = ''00''"
  "ecVerify exampleEnv p m g = Some True"
  by (simp_all add: exampleEnv_def)

lemma showInt_0: "showInt 0 = ''0''"
  by (simp add: showInt_def showNat.simps hexDigit_def)


lemma hashMeetsBits_example: "hashMeetsBits ''00'' 0x1e00ffff = Inr True"
  by (simp add: hashMeetsBits_def bigIntOfHex_def hexVal_def bitsToTarget_def)


section \<open>Branches the model never takes\<close>

text \<open>
  \<open>merkleRoot\<close> reads \<open>nodes[0]\<close> of a list that is never empty, and \<open>maybeRetarget\<close>
  divides by \<open>Math.round(1 / ratio * 1e6)\<close>, which lies between 250000 and 4000000
  because the ratio is clamped: the division never has a zero divisor.
\<close>

lemma merkleLoop_nonempty: "nodes \<noteq> [] \<Longrightarrow> merkleLoop e nodes \<noteq> []"
proof (induction e nodes rule: merkleLoop.induct)
  case (1 e nodes)
  show ?case
  proof (cases "1 < length nodes")
    case True
    then obtain a b rest where "nodes = a # b # rest"
      by (cases nodes; cases "tl nodes") auto
    then have "merkleLayer e nodes \<noteq> []"
      by (simp add: merkleLayer_def)
    with 1 True show ?thesis by (simp add: merkleLoop.simps [of e nodes])
  next
    case False
    with 1 show ?thesis by (simp add: merkleLoop.simps [of e nodes])
  qed
qed

lemma retargetRatio_bounds: "1 / 4 \<le> retargetRatio cfg f l \<and> retargetRatio cfg f l \<le> 4"
  by (simp add: retargetRatio_def Let_def)

lemma retarget_divisor_bounds:
  fixes r :: real
  assumes "1 / 4 \<le> r" and "r \<le> 4"
  shows "250000 \<le> \<lfloor>1 / r * 1000000 + 1 / 2\<rfloor> \<and> \<lfloor>1 / r * 1000000 + 1 / 2\<rfloor> \<le> 4000000"
proof -
  from assms have pos: "0 < r" by simp
  from assms pos have a: "1 / r \<le> 4" by (simp add: field_simps)
  from assms pos have b: "1 / 4 \<le> 1 / r" by (simp add: field_simps)
  from a have "1 / r * 1000000 + 1 / 2 < 4000001" by simp
  moreover from b have "250000 \<le> 1 / r * 1000000 + 1 / 2" by simp
  ultimately show ?thesis by (simp add: le_floor_iff floor_le_iff)
qed

section \<open>The compact encoding of small targets\<close>

text \<open>
  C6 (round trip of the compact encoding).  \<open>targetToBits\<close> writes a target of at most
  three bytes right-aligned into the mantissa, and \<open>bitsToTarget\<close> shifts such a
  mantissa right by \<open>8 * (3 - size)\<close>: the target 1 is encoded as \<open>0x01000001\<close>, which
  decodes to 0, and encoding that 0 again gives 0, not the bits the first encoding
  produced.  The same happens to the two-byte target \<open>0xffff\<close>, which comes back as
  \<open>0xff\<close>, and to \<open>0x800000\<close>, whose only set bit is masked away.
\<close>

theorem targetToBits_small_target_lost:
  "targetToBits 1 = 0x01000001
   \<and> bitsToTarget (targetToBits 1) = 0
   \<and> targetToBits (bitsToTarget (targetToBits 1)) \<noteq> targetToBits 1
   \<and> bitsToTarget (targetToBits 0xffff) = 0xff
   \<and> bitsToTarget (targetToBits 0x800000) = 0"
  by (simp add: evalBits)

section \<open>The retargeter\<close>

text \<open>
  The scaled target is at least 1 (the clamp before re-encoding), and for a ratio of at
  most 1 it is never above the current target.
\<close>

lemma scaleTarget_ge_1: "1 \<le> scaleTarget r c"
  by (simp add: scaleTarget_def Let_def)

lemma scaleTarget_slow_not_larger:
  fixes r :: real
  assumes "1 / 4 \<le> r" and "r \<le> 1" and "1 \<le> c"
  shows "scaleTarget r c \<le> c"
proof -
  define d where "d = \<lfloor>1 / r * 1000000 + 1 / 2\<rfloor>"
  from assms have pos: "0 < r" by simp
  from assms pos have "1 \<le> 1 / r" by (simp add: field_simps)
  then have "1000000 \<le> 1 / r * 1000000 + 1 / 2" by simp
  then have d: "1000000 \<le> d" by (simp add: d_def le_floor_iff)
  have q: "0 \<le> c div d" using assms(3) d by (simp add: pos_imp_zdiv_nonneg_iff)
  have "c div d * 1000000 \<le> c div d * d"
    using d q by (intro mult_left_mono) simp_all
  also have "\<dots> \<le> c"
  proof -
    have "c = c div d * d + c mod d" by simp
    moreover have "0 \<le> c mod d" using d by simp
    ultimately show ?thesis by linarith
  qed
  finally have "c div d * 1000000 \<le> c" .
  with assms(3) show ?thesis by (simp add: scaleTarget_def Let_def d_def)
qed

text \<open>
  C1 (direction of the retarget).  With the configuration of the source (10 blocks per
  period, 10 s per block, bits \<open>0x1e00ffff\<close>), ten blocks spread over 400 s give the ratio
  1/4 (blocks too slow) and the retargeter stores a strictly smaller target; ten blocks
  spread over 25 s give the ratio 4 (blocks too fast) and it stores a strictly larger
  target.  The target follows the ratio, it is not scaled inversely with it.
\<close>

theorem maybeRetarget_target_follows_ratio:
  "retargetRatio defaultConfig 0 400000 = 1 / 4
   \<and> (case maybeRetarget (stampedState defaultConfig
               [0, 45000, 90000, 135000, 180000, 225000, 270000, 315000, 360000, 400000]) of
         Inl err \<Rightarrow> False
       | Inr s \<Rightarrow> bits (st_config s) = 0x1d3fffbf
           \<and> bitsToTarget (bits (st_config s)) < bitsToTarget (bits defaultConfig))
   \<and> retargetRatio defaultConfig 0 25000 = 4
   \<and> (case maybeRetarget (stampedState defaultConfig
               [0, 2500, 5000, 7500, 10000, 12500, 15000, 17500, 20000, 25000]) of
         Inl err \<Rightarrow> False
       | Inr s \<Rightarrow> bits (st_config s) = 0x1e03fffb
           \<and> bitsToTarget (bits defaultConfig) < bitsToTarget (bits (st_config s)))"
  by (simp add: evalRetarget evalBits)

text \<open>
  C8 (the stored target is at least 1).  From a current target of 1 (bits \<open>0x03000001\<close>)
  the scaled target is 0, the clamp raises it to 1, and \<open>targetToBits 1\<close> is stored:
  bits that decode to the target 0.
\<close>

theorem maybeRetarget_stores_zero_target:
  "bitsToTarget 0x03000001 = 1
   \<and> scaleTarget (retargetRatio (defaultConfig\<lparr>bits := 0x03000001\<rparr>) 0 400000) 1 = 1
   \<and> (case maybeRetarget (stampedState (defaultConfig\<lparr>bits := 0x03000001\<rparr>)
               [0, 45000, 90000, 135000, 180000, 225000, 270000, 315000, 360000, 400000]) of
         Inl err \<Rightarrow> False
       | Inr s \<Rightarrow> bits (st_config s) = 0x01000001 \<and> bitsToTarget (bits (st_config s)) = 0)"
  by (simp add: evalRetarget evalBits)


section \<open>Transaction validation\<close>

lemma validateTxOutputs_nonpos:
  "list_ex (\<lambda>ou. out_amount ou \<le> 0) outs \<Longrightarrow> isl (validateTxOutputs s outs)"
  by (induction outs arbitrary: s) auto

lemma validateTxOutputs_Inr:
  "validateTxOutputs s outs = Inr r \<Longrightarrow>
     r = s + sum_list (map out_amount outs) \<and> list_all (\<lambda>ou. 0 < out_amount ou) outs"
proof (induction outs arbitrary: s)
  case Nil
  then show ?case by simp
next
  case (Cons a outs)
  from Cons.prems have pos: "0 < out_amount a"
    and rest: "validateTxOutputs (s + out_amount a) outs = Inr r"
    by (auto split: if_splits)
  from Cons.IH [OF rest] pos show ?case by simp
qed

lemma sum_list_nonneg_amounts:
  "list_all (\<lambda>ou. 0 < out_amount ou) outs \<Longrightarrow> 0 \<le> sum_list (map out_amount outs)"
  by (induction outs) auto

lemma sum_list_pos_amounts:
  "list_all (\<lambda>ou. 0 < out_amount ou) outs \<Longrightarrow> outs \<noteq> [] \<Longrightarrow> 0 < sum_list (map out_amount outs)"
  using sum_list_nonneg_amounts [of "tl outs"] by (cases outs) auto

text \<open>
  C5 (what \<open>validateTx\<close> rejects), as the code has it.  \<open>validateTx\<close> rejects every
  transaction, coinbase or not, that has an output whose amount is not positive, and
  every non-coinbase transaction with no inputs and at least one output (its inputs sum
  to 0).  It has no check of its own that inputs or outputs are present.
\<close>

theorem validateTx_rejects:
  assumes "list_ex (\<lambda>ou. out_amount ou \<le> 0) (tx_outputs t)
           \<or> (tx_isCoinbase t = False \<and> tx_inputs t = [] \<and> tx_outputs t \<noteq> [])"
  shows "isl (validateTx e cfg u t h)"
  using assms
proof
  assume bad: "list_ex (\<lambda>ou. out_amount ou \<le> 0) (tx_outputs t)"
  show ?thesis
  proof (cases "tx_isCoinbase t")
    case True
    with bad show ?thesis by (simp add: validateTx_def)
  next
    case False
    from validateTxOutputs_nonpos [OF bad, of 0]
    obtain err where "validateTxOutputs 0 (tx_outputs t) = Inl err"
      by (cases "validateTxOutputs 0 (tx_outputs t)") auto
    with False show ?thesis
      by (simp add: validateTx_def split: sum.splits)
  qed
next
  assume spend: "tx_isCoinbase t = False \<and> tx_inputs t = [] \<and> tx_outputs t \<noteq> []"
  show ?thesis
  proof (cases "validateTxOutputs 0 (tx_outputs t)")
    case (Inl err)
    with spend show ?thesis by (simp add: validateTx_def)
  next
    case (Inr outSum)
    from validateTxOutputs_Inr [OF Inr] spend have "0 < outSum"
      by (simp add: sum_list_pos_amounts)
    with Inr spend show ?thesis by (simp add: validateTx_def)
  qed
qed

theorem validateTx_rejects_witness:
  "\<forall>e cfg u h.
     isl (validateTx e cfg u
            \<lparr>tx_id = ''a'', tx_isCoinbase = False, tx_inputs = [],
             tx_outputs = [\<lparr>out_address = ''b'', out_amount = 5\<rparr>]\<rparr> h)
     \<and> isl (validateTx e cfg u
            \<lparr>tx_id = ''a'', tx_isCoinbase = True, tx_inputs = [],
             tx_outputs = [\<lparr>out_address = ''b'', out_amount = 0\<rparr>]\<rparr> h)"
proof (intro allI conjI)
  fix e cfg u h
  show "isl (validateTx e cfg u
            \<lparr>tx_id = ''a'', tx_isCoinbase = False, tx_inputs = [],
             tx_outputs = [\<lparr>out_address = ''b'', out_amount = 5\<rparr>]\<rparr> h)"
    by (rule validateTx_rejects) simp
  show "isl (validateTx e cfg u
            \<lparr>tx_id = ''a'', tx_isCoinbase = True, tx_inputs = [],
             tx_outputs = [\<lparr>out_address = ''b'', out_amount = 0\<rparr>]\<rparr> h)"
    by (rule validateTx_rejects) simp
qed

text \<open>
  C5 as stated fails: the non-coinbase transaction with no inputs and no outputs passes
  \<open>validateTx\<close>, whatever the primitives, the configuration, the UTXO map and the height.
\<close>

theorem validateTx_accepts_empty_spend:
  "\<forall>e cfg u h.
     validateTx e cfg u \<lparr>tx_id = [], tx_isCoinbase = False, tx_inputs = [], tx_outputs = []\<rparr> h
       = Inr ()"
  by (simp add: validateTx_def)

section \<open>Block submission\<close>

text \<open>
  C7 (a rejected block has no effect).  When \<open>validateBlock\<close> rejects the submitted
  block (with the missing ids filled in, as the handler does before validating), the
  answer of \<open>POST /blocks\<close> is the error and the state (chain, UTXO map, mempool,
  mempool-spent set, seen sets and configuration) is the state before the submission;
  the peer handler drops the block and leaves the state as it was, too.
\<close>

theorem postBlocks_rejected_no_effect:
  assumes "validateBlock e now st (b\<lparr>blk_transactions := map (fillId e) (blk_transactions b)\<rparr>)
             = Inl err"
  shows "postBlocks e now st b = (st, BlockRejected err)
         \<and> p2pOnMessage e now st (MsgBlock b) = st"
  using assms by (simp add: postBlocks_def Let_def)

theorem postBlocks_rejected_no_effect_witness:
  "\<forall>e. postBlocks e 0 (boot e 0 defaultConfig []) ((stampedBlock 0)\<lparr>blk_index := 5\<rparr>)
         = (boot e 0 defaultConfig [], BlockRejected (Error ''bad index''))
       \<and> p2pOnMessage e 0 (boot e 0 defaultConfig []) (MsgBlock ((stampedBlock 0)\<lparr>blk_index := 5\<rparr>))
         = boot e 0 defaultConfig []"
proof
  fix e
  have "validateBlock e 0 (boot e 0 defaultConfig [])
          (((stampedBlock 0)\<lparr>blk_index := 5\<rparr>)
             \<lparr>blk_transactions := map (fillId e) (blk_transactions ((stampedBlock 0)\<lparr>blk_index := 5\<rparr>))\<rparr>)
        = Inl (Error ''bad index'')"
    by (simp add: validateBlock_def boot_def genesisBlock_def stampedBlock_def Let_def)
  from postBlocks_rejected_no_effect [OF this]
  show "postBlocks e 0 (boot e 0 defaultConfig []) ((stampedBlock 0)\<lparr>blk_index := 5\<rparr>)
         = (boot e 0 defaultConfig [], BlockRejected (Error ''bad index''))
       \<and> p2pOnMessage e 0 (boot e 0 defaultConfig []) (MsgBlock ((stampedBlock 0)\<lparr>blk_index := 5\<rparr>))
         = boot e 0 defaultConfig []" .
qed


section \<open>The UTXO map is the replay of the chain\<close>

lemma applyTx_utxo: "st_utxo (applyTx h t st) = applyTxUTXO h (st_utxo st) t"
  by (simp add: applyTx_def Let_def)

lemma applyTx_chain: "st_chain (applyTx h t st) = st_chain st"
  by (simp add: applyTx_def Let_def)

lemma fold_applyTx_utxo:
  "st_utxo (fold (applyTx h) txs st) = fold (\<lambda>t u. applyTxUTXO h u t) txs (st_utxo st)"
  by (induction txs arbitrary: st) (simp_all add: applyTx_utxo)

lemma fold_applyTx_chain: "st_chain (fold (applyTx h) txs st) = st_chain st"
  by (induction txs arbitrary: st) (simp_all add: applyTx_chain)

lemma applyBlock_utxo:
  "st_utxo (applyBlock e st b) =
     fold (\<lambda>t u. applyTxUTXO (blk_index b) u t) (blk_transactions b) (st_utxo st)"
  by (simp add: applyBlock_def Let_def fold_applyTx_utxo)

lemma applyBlock_chain: "st_chain (applyBlock e st b) = st_chain st @ [b]"
  by (simp add: applyBlock_def Let_def fold_applyTx_chain)

lemma rebuildUTXO_snoc:
  "rebuildUTXO (ch @ [b]) =
     fold (\<lambda>t u. applyTxUTXO (blk_index b) u t) (blk_transactions b) (rebuildUTXO ch)"
  by (simp add: rebuildUTXO_def)

lemma applyBlock_rebuild:
  "st_utxo st = rebuildUTXO (st_chain st) \<Longrightarrow>
   st_utxo (applyBlock e st b) = rebuildUTXO (st_chain (applyBlock e st b))"
  by (simp add: applyBlock_utxo applyBlock_chain rebuildUTXO_snoc)

lemma maybeRetarget_utxo_chain:
  "maybeRetarget st = Inr st' \<Longrightarrow> st_utxo st' = st_utxo st \<and> st_chain st' = st_chain st"
  by (auto simp: maybeRetarget_def Let_def split: if_splits)

lemma postTransactions_utxo_chain:
  "st_utxo (fst (postTransactions e st t)) = st_utxo st
   \<and> st_chain (fst (postTransactions e st t)) = st_chain st"
  by (simp add: postTransactions_def Let_def split: sum.splits)

lemma postBlocks_rebuild:
  assumes "st_utxo st = rebuildUTXO (st_chain st)"
  shows "st_utxo (fst (postBlocks e now st b)) = rebuildUTXO (st_chain (fst (postBlocks e now st b)))"
  using assms applyBlock_rebuild [OF assms]
  by (auto simp: postBlocks_def Let_def split: sum.splits dest!: maybeRetarget_utxo_chain)

lemma p2pOnMessage_rebuild:
  assumes "st_utxo st = rebuildUTXO (st_chain st)"
  shows "st_utxo (p2pOnMessage e now st msg) = rebuildUTXO (st_chain (p2pOnMessage e now st msg))"
proof (cases msg)
  case (MsgTx t)
  with assms show ?thesis by (simp add: Let_def split: sum.splits)
next
  case (MsgBlock b)
  with assms applyBlock_rebuild [OF assms] show ?thesis
    by (auto simp: Let_def split: sum.splits dest!: maybeRetarget_utxo_chain)
qed (use assms in simp_all)

lemma reachable_rebuild: "reachable e st \<Longrightarrow> st_utxo st = rebuildUTXO (st_chain st)"
proof (induction rule: reachable.induct)
  case (r_boot now cfg disk)
  show ?case by (simp add: boot_def Let_def)
next
  case (r_postTransactions st t)
  then show ?case by (simp add: postTransactions_utxo_chain)
next
  case (r_postBlocks st now b)
  from postBlocks_rebuild [OF r_postBlocks.IH] show ?case .
next
  case (r_p2p st now msg)
  from p2pOnMessage_rebuild [OF r_p2p.IH] show ?case .
qed

text \<open>
  C2 (the live UTXO map is the fold over the chain).  In every state the node reaches
  (after boot, and after any sequence of submitted transactions, submitted blocks and
  peer messages) the UTXO map equals \<open>rebuildUTXO\<close> of the chain, the replay of every
  block in chain order from the empty map; and applying one more block with
  \<open>applyBlock\<close> gives the replay of the chain extended by that block.
\<close>

theorem utxo_is_replay_of_chain:
  assumes "reachable e st"
  shows "st_utxo st = rebuildUTXO (st_chain st)
         \<and> st_utxo (applyBlock e st b) = rebuildUTXO (st_chain st @ [b])"
  using reachable_rebuild [OF assms] applyBlock_rebuild [of st e b]
  by (simp add: applyBlock_chain)


theorem utxo_is_replay_of_chain_witness:
  "\<forall>e now b.
     reachable e (fst (postBlocks e now (boot e 0 defaultConfig []) b))
     \<and> st_utxo (fst (postBlocks e now (boot e 0 defaultConfig []) b))
         = rebuildUTXO (st_chain (fst (postBlocks e now (boot e 0 defaultConfig []) b)))
     \<and> st_utxo (applyBlock e (boot e 0 defaultConfig []) b)
         = rebuildUTXO ([genesisBlock e 0 defaultConfig] @ [b])"
proof (intro allI)
  fix e now b
  have r0: "reachable e (boot e 0 defaultConfig [])"
    by (rule r_boot)
  have r1: "reachable e (fst (postBlocks e now (boot e 0 defaultConfig []) b))"
    by (rule r_postBlocks) (rule r_boot)
  have c: "st_chain (boot e 0 defaultConfig []) = [genesisBlock e 0 defaultConfig]"
    by (simp add: boot_def Let_def)
  from utxo_is_replay_of_chain [OF r1] utxo_is_replay_of_chain [OF r0, of b] r1 c
  show "reachable e (fst (postBlocks e now (boot e 0 defaultConfig []) b))
     \<and> st_utxo (fst (postBlocks e now (boot e 0 defaultConfig []) b))
         = rebuildUTXO (st_chain (fst (postBlocks e now (boot e 0 defaultConfig []) b)))
     \<and> st_utxo (applyBlock e (boot e 0 defaultConfig []) b)
         = rebuildUTXO ([genesisBlock e 0 defaultConfig] @ [b])"
    by simp
qed


section \<open>The coinbase bound\<close>











section \<open>Submitting a transaction twice\<close>

lemma fillId_inputs: "tx_inputs (fillId e t) = tx_inputs t"
  by (simp add: fillId_def)

lemma fillId_idem: "fillId e (fillId e t) = fillId e t"
  by (simp add: fillId_def txIdFor_def)

text \<open>
  C4 (a duplicate submission).  \<open>POST /transactions\<close> looks for the id in the mempool
  only after \<open>validateTx\<close> and after the check against the mempool-spent set.  A
  transaction with at least one input that has just been admitted has reserved its own
  outpoints, so submitting it again is answered with the error
  \<open>mempool double spend\<close>, not with the duplicate answer; the state is left as it was.
  The peer handler looks for the id first and drops the same transaction silently.
\<close>

theorem postTransactions_resubmission_rejected:
  assumes first: "postTransactions e st t = (st', TxOk i)"
    and ins: "tx_inputs t \<noteq> []"
  shows "map_of (st_mempool st') i = Some (fillId e t)
         \<and> postTransactions e st' t = (st', TxRejected (Error ''mempool double spend''))
         \<and> p2pOnMessage e now st' (MsgTx t) = st'"
proof -
  let ?t = "fillId e t"
  from first have ok: "validateTx e (st_config st) (st_utxo st) ?t (int (length (st_chain st))) = Inr ()"
    and st': "st' = st\<lparr>st_mempool := AList.update (tx_id ?t) ?t (st_mempool st),
                        st_mempoolSpent := st_mempoolSpent st \<union> set (map inputKey (tx_inputs ?t)),
                        st_seenTx := insert (tx_id ?t) (st_seenTx st)\<rparr>"
    and i: "i = tx_id ?t"
    by (auto simp: postTransactions_def Let_def split: sum.splits if_splits)
  have mem: "map_of (st_mempool st') i = Some ?t"
    by (simp add: st' i update_conv')
  from ins obtain a rest where "tx_inputs ?t = a # rest"
    by (cases "tx_inputs t") (auto simp: fillId_inputs)
  then have reserved: "list_ex (\<lambda>x. inputKey x \<in> st_mempoolSpent st') (tx_inputs ?t)"
    by (simp add: st')
  have same: "validateTx e (st_config st') (st_utxo st') ?t (int (length (st_chain st'))) = Inr ()"
    using ok by (simp add: st')
  have again: "postTransactions e st' t = (st', TxRejected (Error ''mempool double spend''))"
    using same reserved by (simp add: postTransactions_def Let_def)
  have peer: "p2pOnMessage e now st' (MsgTx t) = st'"
    using mem i by (simp add: Let_def)
  from mem again peer show ?thesis by blast
qed

lemma postTransactions_example:
  "snd (postTransactions exampleEnv exampleState exampleSpend) = TxOk ''d0''"
  by (simp add: postTransactions_def fillId_def exampleSpend_def exampleState_def validateTx_def
      verifyInputSig_def pubKeyToAddress_def exampleEnv_simps Let_def inputKey_def
      outpointKey_def showInt_0 defaultConfig_def)

theorem postTransactions_resubmission_rejected_witness:
  "postTransactions exampleEnv exampleState exampleSpend
     = (fst (postTransactions exampleEnv exampleState exampleSpend), TxOk ''d0'')
   \<and> postTransactions exampleEnv (fst (postTransactions exampleEnv exampleState exampleSpend))
       exampleSpend
     = (fst (postTransactions exampleEnv exampleState exampleSpend),
        TxRejected (Error ''mempool double spend''))"
proof -
  have first: "postTransactions exampleEnv exampleState exampleSpend
     = (fst (postTransactions exampleEnv exampleState exampleSpend), TxOk ''d0'')"
    using postTransactions_example by (simp add: prod_eq_iff)
  have ins: "tx_inputs exampleSpend \<noteq> []"
    by (simp add: exampleSpend_def)
  from postTransactions_resubmission_rejected [OF first ins] first show ?thesis by blast
qed

section \<open>What block validation does not check\<close>

lemma merkleRoot_single: "merkleRoot e [i] = bufferToHex (bufferFromHex i)"
  by (simp add: merkleRoot_def merkleLoop.simps)

lemma addOutputs_as_applyTx:
  "tx_inputs t = [] \<Longrightarrow>
   applyTxUTXO h u t = addOutputs u (tx_id t) h (tx_isCoinbase t) (tx_outputs t)"
  by (simp add: applyTxUTXO_def spendInputs_def)

lemma postBlocks_utxo_accepted:
  assumes "validateBlock e now st (b\<lparr>blk_transactions := map (fillId e) (blk_transactions b)\<rparr>) = Inr ()"
  shows "st_utxo (fst (postBlocks e now st b))
         = fold (\<lambda>t u. applyTxUTXO (blk_index b) u t) (map (fillId e) (blk_transactions b)) (st_utxo st)"
  using assms
  by (auto simp: postBlocks_def Let_def applyBlock_utxo split: sum.splits dest!: maybeRetarget_utxo_chain)

lemma addOutputs_Nil: "addOutputs m tid h cb [] = m"
  by (simp add: addOutputs_def)

lemma walkBlockTxs_empty_spends:
  "list_all (\<lambda>t. tx_isCoinbase t = False \<and> tx_inputs t = [] \<and> tx_outputs t = []) spends \<Longrightarrow>
   walkBlockTxs e cfg h cc fee temp spends = Inr (cc, fee, temp)"
  by (induction spends) (simp_all add: addOutputs_Nil)

lemma validateBlock_coinbase_and_empty_spends:
  assumes link: "st_chain st = [] \<and> blk_index b = 0
                 \<or> st_chain st \<noteq> [] \<and> blk_index b = blk_index (last (st_chain st)) + 1
                    \<and> blk_previousHash b = headerHash e (last (st_chain st))"
    and ts: "blk_timestamp b \<le> now + 7200000"
    and txs: "blk_transactions b = cb # spends"
    and cb: "tx_isCoinbase cb" "tx_inputs cb = []"
    and spends: "list_all (\<lambda>t. tx_isCoinbase t = False \<and> tx_inputs t = [] \<and> tx_outputs t = []) spends"
    and merkle: "blk_merkleRoot b = merkleRoot e (map tx_id (cb # spends))"
    and pow: "hashMeetsBits (headerHash e b) (blk_bits b) = Inr True"
    and amount: "sum_list (map out_amount (tx_outputs cb))
                   \<le> getBlockReward (st_config st) (blk_index b)"
  shows "validateBlock e now st b = Inr ()"
  using link ts txs cb merkle pow amount
  by (auto simp: validateBlock_def Let_def walkBlockTxs_empty_spends [OF spends])

lemma length_sliceFrom0: "0 \<le> n \<Longrightarrow> int (length (sliceFrom0 xs n)) \<le> n"
  by (simp add: sliceFrom0_def)

lemma candidate_length:
  assumes "candidate e now st addr = Inr c" and "0 \<le> maxBlockTx (st_config st)"
  shows "int (length (blk_transactions c)) \<le> maxBlockTx (st_config st) + 1"
proof -
  from assms(1) have "blk_transactions c =
      map (fillId e) ((\<lparr>tx_id = [], tx_isCoinbase = True, tx_inputs = [],
             tx_outputs = [\<lparr>out_address = addr,
               out_amount = getBlockReward (st_config st) (blk_index (last (st_chain st)) + 1)
                 + sum_list (map (candidateFee (st_utxo st))
                     (sliceFrom0 (map snd (st_mempool st)) (maxBlockTx (st_config st))))\<rparr>]\<rparr>
            \<lparr>tx_id := txIdFor e \<lparr>tx_id = [], tx_isCoinbase = True, tx_inputs = [],
             tx_outputs = [\<lparr>out_address = addr,
               out_amount = getBlockReward (st_config st) (blk_index (last (st_chain st)) + 1)
                 + sum_list (map (candidateFee (st_utxo st))
                     (sliceFrom0 (map snd (st_mempool st)) (maxBlockTx (st_config st))))\<rparr>]\<rparr>\<rparr>)
         # sliceFrom0 (map snd (st_mempool st)) (maxBlockTx (st_config st)))"
    by (auto simp: candidate_def Let_def split: if_splits)
  then have "length (blk_transactions c)
      = Suc (length (sliceFrom0 (map snd (st_mempool st)) (maxBlockTx (st_config st))))"
    by simp
  with length_sliceFrom0 [OF assms(2), of "map snd (st_mempool st)"] show ?thesis by simp
qed

lemma spendBlockInputs_maxBlockTx:
  "spendBlockInputs e (cfg\<lparr>maxBlockTx := m\<rparr>) h t temp s ins = spendBlockInputs e cfg h t temp s ins"
  by (induction ins arbitrary: temp s) (simp_all add: Let_def split: option.splits sum.splits)

lemma walkBlockTxs_maxBlockTx:
  "walkBlockTxs e (cfg\<lparr>maxBlockTx := m\<rparr>) h cc fee temp txs = walkBlockTxs e cfg h cc fee temp txs"
  by (induction txs arbitrary: cc fee temp)
     (simp_all add: Let_def spendBlockInputs_maxBlockTx split: sum.splits prod.splits)

lemma validateBlock_maxBlockTx:
  "validateBlock e now (st\<lparr>st_config := (st_config st)\<lparr>maxBlockTx := m\<rparr>\<rparr>) b = validateBlock e now st b"
proof -
  let ?st = "st\<lparr>st_config := (st_config st)\<lparr>maxBlockTx := m\<rparr>\<rparr>"
  have c: "st_config ?st = (st_config st)\<lparr>maxBlockTx := m\<rparr>"
    and u: "st_utxo ?st = st_utxo st" and ch: "st_chain ?st = st_chain st"
    by simp_all
  have r: "getBlockReward ((st_config st)\<lparr>maxBlockTx := m\<rparr>) (blk_index b)
             = getBlockReward (st_config st) (blk_index b)"
    by (simp add: getBlockReward_def Let_def)
  show ?thesis
    unfolding validateBlock_def c u ch walkBlockTxs_maxBlockTx r ..
qed

lemma exampleState_link:
  "st_chain exampleState \<noteq> []
   \<and> blk_index (blockOf txs mr) = blk_index (last (st_chain exampleState)) + 1
   \<and> blk_previousHash (blockOf txs mr) = headerHash exampleEnv (last (st_chain exampleState))"
  by (simp add: exampleState_def blockOf_def genesisBlock_def headerHash_def exampleEnv_simps)

lemma blockOf_pow:
  "hashMeetsBits (headerHash exampleEnv (blockOf txs mr)) (blk_bits (blockOf txs mr)) = Inr True"
  by (simp add: headerHash_def exampleEnv_simps blockOf_def hashMeetsBits_example)

lemma merkleRoot_c0: "merkleRoot exampleEnv [''c0''] = ''c0''"
  by (simp add: merkleRoot_single hexVal_def bufferToHex_def hexDigit_def)

lemma merkleRoot_full:
  "merkleRoot exampleEnv (map tx_id (exampleCoinbase 5 # replicate 25 emptySpend)) = ''00''"
  by (simp add: merkleRoot_def merkleLoop.simps merkleLayer_def exampleEnv_simps hexVal_def
      bufferToHex_def hexDigit_def replicate_numeral_unfold exampleCoinbase_def emptySpend_def)

lemma reward_example: "getBlockReward (st_config exampleState) 1 = 5"
  by (simp add: getBlockReward_def exampleState_def defaultConfig_def)

text \<open>
  \<open>validateBlock\<close> tests the header hash against the bits the block itself carries and
  never compares them with \<open>config.bits\<close>.  The bits \<open>0xff7fffff\<close> decode to a target
  above every 256-bit number, so a digest of at most 64 hexadecimal digits meets them:
  the proof-of-work premise of the two theorems below can always be met.
\<close>

lemma hexVal_less: "hexVal c = Some d \<Longrightarrow> d < 16"
  by (auto simp: hexVal_def Let_def split: if_splits)

lemma hexPrefix_bound: "hexPrefix acc h < (acc + 1) * 16 ^ length h"
proof (induction h arbitrary: acc)
  case Nil
  then show ?case by simp
next
  case (Cons c cs)
  show ?case
  proof (cases "hexVal c")
    case None
    have "acc < (acc + 1) * 1" by simp
    also have "\<dots> \<le> (acc + 1) * 16 ^ length (c # cs)"
      by (intro mult_left_mono) simp_all
    finally show ?thesis using None by simp
  next
    case (Some d)
    from hexVal_less [OF Some] have "16 * acc + d + 1 \<le> 16 * (acc + 1)" by simp
    then have "(16 * acc + d + 1) * 16 ^ length cs \<le> (16 * (acc + 1)) * 16 ^ length cs"
      by (rule mult_right_mono) simp
    also have "\<dots> = (acc + 1) * 16 ^ length (c # cs)" by (simp add: algebra_simps)
    finally have "(16 * acc + d + 1) * 16 ^ length cs \<le> (acc + 1) * 16 ^ length (c # cs)" .
    with Cons.IH [of "16 * acc + d"] have "hexPrefix (16 * acc + d) cs < (acc + 1) * 16 ^ length (c # cs)"
      by linarith
    with Some show ?thesis by simp
  qed
qed


lemma hashMeetsBits_largest_bits:
  assumes "h \<noteq> []" and "list_all (\<lambda>c. hexVal c \<noteq> None) h" and "length h \<le> 64"
  shows "hashMeetsBits h 0xff7fffff = Inr True"
proof -
  have "hexPrefix 0 h < 16 ^ length h"
    using hexPrefix_bound [of 0 h] by simp
  also have "\<dots> \<le> (16 :: nat) ^ 64"
    using assms(3) by (intro power_increasing) simp_all
  finally have "int (hexPrefix 0 h) < 16 ^ 64"
    by simp
  also have "(16 :: int) ^ 64 = 2 ^ 256"
    by simp
  also have "(2 :: int) ^ 256 \<le> 2 ^ 2016"
    by (intro power_increasing) simp_all
  also have "(2 :: int) ^ 2016 = 1 * 2 ^ 2016"
    by (simp only: mult_1)
  also have "\<dots> \<le> 8388607 * 2 ^ 2016"
    by (rule mult_right_mono) simp_all
  finally have le: "int (hexPrefix 0 h) \<le> 8388607 * 2 ^ 2016"
    by (simp only: less_imp_le)
  have tgt: "bitsToTarget 0xff7fffff = 8388607 * 2 ^ 2016"
    by (simp add: bitsToTarget_def)
  have "\<not> list_ex (\<lambda>c. hexVal c = None) h"
    using assms(2) by (simp add: list_all_iff list_ex_iff)
  with assms(1) le tgt show ?thesis
    by (simp only: hashMeetsBits_def bigIntOfHex_def) simp
qed

text \<open>
  So, whatever the hash function (as long as its digests are at most 64 hexadecimal
  digits), in every state and for every non-empty list of non-empty ids there is a block
  carrying exactly these ids that \<open>validateBlock\<close> accepts and \<open>POST /blocks\<close> appends:
  a coinbase without outputs followed by spends without inputs and outputs.
\<close>

lemma getBlockReward_nonneg: "0 \<le> getBlockReward cfg h"
  by (simp add: getBlockReward_def Let_def)

lemma accepted_block_with_any_ids_exists:
  assumes digest: "\<And>x. sha256Hex e x \<noteq> [] \<and> list_all (\<lambda>c. hexVal c \<noteq> None) (sha256Hex e x)
                      \<and> length (sha256Hex e x) \<le> 64"
    and nonempty: "list_all (\<lambda>i. i \<noteq> []) (i # ids)"
  shows "\<exists>b. map tx_id (blk_transactions b) = i # ids
           \<and> validateBlock e now st b = Inr ()
           \<and> fst (postBlocks e now st b) \<noteq> st"
proof -
  define cb where "cb = \<lparr>tx_id = i, tx_isCoinbase = True, tx_inputs = [], tx_outputs = []\<rparr>"
  define spends where
    "spends = map (\<lambda>j. \<lparr>tx_id = j, tx_isCoinbase = False, tx_inputs = [], tx_outputs = []\<rparr>) ids"
  define b where
    "b = \<lparr>blk_index = (if st_chain st = [] then 0 else blk_index (last (st_chain st)) + 1),
          blk_previousHash = headerHash e (last (st_chain st)), blk_timestamp = now,
          blk_transactions = cb # spends, blk_merkleRoot = merkleRoot e (i # ids),
          blk_nonce = 0, blk_bits = 0xff7fffff\<rparr>"
  have ids_eq: "map tx_id (cb # spends) = i # ids"
    by (simp add: cb_def spends_def comp_def)
  have link: "st_chain st = [] \<and> blk_index b = 0
              \<or> st_chain st \<noteq> [] \<and> blk_index b = blk_index (last (st_chain st)) + 1
                 \<and> blk_previousHash b = headerHash e (last (st_chain st))"
    by (simp add: b_def)
  have ts: "blk_timestamp b \<le> now + 7200000" by (simp add: b_def)
  have txs: "blk_transactions b = cb # spends" by (simp add: b_def)
  have cbp: "tx_isCoinbase cb" "tx_inputs cb = []" by (simp_all add: cb_def)
  have sp: "list_all (\<lambda>t. tx_isCoinbase t = False \<and> tx_inputs t = [] \<and> tx_outputs t = []) spends"
    by (simp add: spends_def list_all_iff)
  have merkle: "blk_merkleRoot b = merkleRoot e (map tx_id (cb # spends))"
    by (simp only: ids_eq) (simp add: b_def)
  have pow: "hashMeetsBits (headerHash e b) (blk_bits b) = Inr True"
    using digest hashMeetsBits_largest_bits [of "headerHash e b"]
    by (simp add: headerHash_def b_def)
  have amount: "sum_list (map out_amount (tx_outputs cb)) \<le> getBlockReward (st_config st) (blk_index b)"
    by (simp add: cb_def getBlockReward_nonneg)
  have ok: "validateBlock e now st b = Inr ()"
    by (rule validateBlock_coinbase_and_empty_spends [OF link ts txs cbp sp merkle pow amount])
  have fill: "b\<lparr>blk_transactions := map (fillId e) (blk_transactions b)\<rparr> = b"
  proof -
    have "map (fillId e) (cb # spends) = cb # spends"
      using nonempty by (simp add: cb_def spends_def fillId_def list_all_iff)
    then show ?thesis by (simp add: b_def)
  qed
  have "st_chain (fst (postBlocks e now st b)) = st_chain st @ [b]"
    using ok fill
    by (auto simp: postBlocks_def Let_def applyBlock_chain split: sum.splits
        dest!: maybeRetarget_utxo_chain)
  then have changed: "fst (postBlocks e now st b) \<noteq> st" by auto
  have "map tx_id (blk_transactions b) = i # ids"
    by (simp only: txs ids_eq)
  with ok changed show ?thesis by (intro exI [of _ b] conjI)
qed

text \<open>
  C9 (transaction ids are taken as supplied).  \<open>validateBlock\<close> never calls \<open>txIdFor\<close>,
  and the handler fills in an id only where it is missing.  A block that extends the
  tip, is not too far in the future, meets its own bits, and holds one coinbase whose
  outputs stay within the reward is accepted whatever non-empty id the coinbase carries,
  also an id that differs from \<open>txIdFor\<close> of its content, provided the merkle root was
  computed over that id; the outputs then enter the UTXO map under the supplied id.
\<close>

theorem validateBlock_accepts_any_tx_id:
  assumes link: "st_chain st = [] \<and> blk_index b = 0
                 \<or> st_chain st \<noteq> [] \<and> blk_index b = blk_index (last (st_chain st)) + 1
                    \<and> blk_previousHash b = headerHash e (last (st_chain st))"
    and ts: "blk_timestamp b \<le> now + 7200000"
    and txs: "blk_transactions b = [cb]"
    and cb: "tx_isCoinbase cb" "tx_inputs cb = []"
    and supplied: "tx_id cb \<noteq> []" "tx_id cb \<noteq> txIdFor e cb"
    and merkle: "blk_merkleRoot b = merkleRoot e [tx_id cb]"
    and pow: "hashMeetsBits (headerHash e b) (blk_bits b) = Inr True"
    and amount: "sum_list (map out_amount (tx_outputs cb))
                   \<le> getBlockReward (st_config st) (blk_index b)"
  shows "validateBlock e now st b = Inr ()
         \<and> st_utxo (fst (postBlocks e now st b))
             = addOutputs (st_utxo st) (tx_id cb) (blk_index b) True (tx_outputs cb)"
proof -
  have ok: "validateBlock e now st b = Inr ()"
    using link ts txs cb merkle pow amount
    by (auto simp: validateBlock_def Let_def)
  have fill: "b\<lparr>blk_transactions := map (fillId e) (blk_transactions b)\<rparr> = b"
    using txs supplied(1) by (simp add: fillId_def)
  from postBlocks_utxo_accepted [of e now st b] ok fill
  have "st_utxo (fst (postBlocks e now st b))
         = fold (\<lambda>t u. applyTxUTXO (blk_index b) u t) (map (fillId e) (blk_transactions b)) (st_utxo st)"
    by simp
  also have "\<dots> = addOutputs (st_utxo st) (tx_id cb) (blk_index b) True (tx_outputs cb)"
    using txs supplied(1) cb by (simp add: fillId_def addOutputs_as_applyTx)
  finally show ?thesis using ok by blast
qed

theorem validateBlock_accepts_any_tx_id_witness:
  "validateBlock exampleEnv 0 exampleState coinbaseBlock = Inr ()
   \<and> txIdFor exampleEnv (exampleCoinbase 5) = ''00''
   \<and> st_utxo (fst (postBlocks exampleEnv 0 exampleState coinbaseBlock))
       = addOutputs (st_utxo exampleState) ''c0'' 1 True (tx_outputs (exampleCoinbase 5))
   \<and> st_utxo (fst (postBlocks exampleEnv 0 exampleState coinbaseBlock)) ''c0:0''
       = Some \<lparr>ut_amount = 5, ut_address = ''0a'', ut_blockHeight = 1, ut_isCoinbase = True\<rparr>
   \<and> st_utxo (fst (postBlocks exampleEnv 0 exampleState coinbaseBlock)) ''00:0'' = None"
proof -
  have tid: "txIdFor exampleEnv (exampleCoinbase 5) = ''00''"
    by (simp add: txIdFor_def exampleEnv_simps)
  have link: "st_chain exampleState = [] \<and> blk_index coinbaseBlock = 0
       \<or> st_chain exampleState \<noteq> []
          \<and> blk_index coinbaseBlock = blk_index (last (st_chain exampleState)) + 1
          \<and> blk_previousHash coinbaseBlock = headerHash exampleEnv (last (st_chain exampleState))"
    using exampleState_link [of "[exampleCoinbase 5]" "''c0''"] by (simp add: coinbaseBlock_def)
  have ts: "blk_timestamp coinbaseBlock \<le> 0 + 7200000"
    by (simp add: coinbaseBlock_def blockOf_def)
  have txs: "blk_transactions coinbaseBlock = [exampleCoinbase 5]"
    by (simp add: coinbaseBlock_def blockOf_def)
  have cb: "tx_isCoinbase (exampleCoinbase 5)" "tx_inputs (exampleCoinbase 5) = []"
    by (simp_all add: exampleCoinbase_def)
  have supplied: "tx_id (exampleCoinbase 5) \<noteq> []"
    "tx_id (exampleCoinbase 5) \<noteq> txIdFor exampleEnv (exampleCoinbase 5)"
    by (simp_all add: tid) (simp_all add: exampleCoinbase_def)
  have merkle: "blk_merkleRoot coinbaseBlock = merkleRoot exampleEnv [tx_id (exampleCoinbase 5)]"
    by (simp add: coinbaseBlock_def blockOf_def exampleCoinbase_def merkleRoot_c0)
  have pow: "hashMeetsBits (headerHash exampleEnv coinbaseBlock) (blk_bits coinbaseBlock) = Inr True"
    by (simp add: coinbaseBlock_def blockOf_pow)
  have amount: "sum_list (map out_amount (tx_outputs (exampleCoinbase 5)))
                  \<le> getBlockReward (st_config exampleState) (blk_index coinbaseBlock)"
    by (simp add: coinbaseBlock_def blockOf_def reward_example) (simp add: exampleCoinbase_def)
  note main = validateBlock_accepts_any_tx_id [OF link ts txs cb supplied merkle pow amount]
  have u: "st_utxo (fst (postBlocks exampleEnv 0 exampleState coinbaseBlock))
       = addOutputs (st_utxo exampleState) ''c0'' 1 True (tx_outputs (exampleCoinbase 5))"
    using main by (simp add: exampleCoinbase_def coinbaseBlock_def blockOf_def)
  have k1: "addOutputs (st_utxo exampleState) ''c0'' 1 True (tx_outputs (exampleCoinbase 5)) ''c0:0''
       = Some \<lparr>ut_amount = 5, ut_address = ''0a'', ut_blockHeight = 1, ut_isCoinbase = True\<rparr>"
    by (simp add: addOutputs_def exampleCoinbase_def outpointKey_def showInt_0)
  have k2: "addOutputs (st_utxo exampleState) ''c0'' 1 True (tx_outputs (exampleCoinbase 5)) ''00:0''
       = None"
    by (simp add: addOutputs_def exampleCoinbase_def outpointKey_def showInt_0 exampleState_def)
  from main tid u k1 k2 show ?thesis by simp
qed

text \<open>
  C10 (\<open>maxBlockTx\<close> is not a consensus rule).  A block that \<open>validateBlock\<close> accepts is
  accepted under every value of \<open>maxBlockTx\<close>, in particular under one below the number
  of its transactions: \<open>validateBlock\<close> does not read the field.  The candidate assembler
  does: for a limit \<open>m\<close> from 0 on, a candidate holds the coinbase and at most \<open>m\<close>
  mempool entries.
\<close>

theorem validateBlock_ignores_maxBlockTx:
  assumes "validateBlock e now st b = Inr ()"
  shows "validateBlock e now (st\<lparr>st_config := (st_config st)\<lparr>maxBlockTx := m\<rparr>\<rparr>) b = Inr ()
         \<and> (0 \<le> m \<longrightarrow>
             (\<forall>addr c. candidate e now (st\<lparr>st_config := (st_config st)\<lparr>maxBlockTx := m\<rparr>\<rparr>) addr = Inr c
                \<longrightarrow> int (length (blk_transactions c)) \<le> m + 1))"
proof -
  let ?st = "st\<lparr>st_config := (st_config st)\<lparr>maxBlockTx := m\<rparr>\<rparr>"
  have "validateBlock e now ?st b = Inr ()"
    using assms by (simp only: validateBlock_maxBlockTx)
  moreover have "int (length (blk_transactions c)) \<le> m + 1"
    if "0 \<le> m" and "candidate e now ?st addr = Inr c" for addr c
    using candidate_length [OF that(2)] that(1) by simp
  ultimately show ?thesis by blast
qed

theorem validateBlock_ignores_maxBlockTx_witness:
  "validateBlock exampleEnv 0 exampleState fullBlock = Inr ()
   \<and> length (blk_transactions fullBlock) = 26
   \<and> maxBlockTx (st_config exampleState) = 25
   \<and> validateBlock exampleEnv 0
        (exampleState\<lparr>st_config := (st_config exampleState)\<lparr>maxBlockTx := 3\<rparr>\<rparr>) fullBlock = Inr ()
   \<and> (\<exists>c. candidate exampleEnv 0
              (exampleState\<lparr>st_config := (st_config exampleState)\<lparr>maxBlockTx := 3\<rparr>\<rparr>) ''0a'' = Inr c
          \<and> int (length (blk_transactions c)) \<le> 3 + 1)"
proof -
  have link: "st_chain exampleState = [] \<and> blk_index fullBlock = 0
       \<or> st_chain exampleState \<noteq> []
          \<and> blk_index fullBlock = blk_index (last (st_chain exampleState)) + 1
          \<and> blk_previousHash fullBlock = headerHash exampleEnv (last (st_chain exampleState))"
    using exampleState_link [of "exampleCoinbase 5 # replicate 25 emptySpend" "''00''"]
    by (simp add: fullBlock_def)
  have ts: "blk_timestamp fullBlock \<le> 0 + 7200000"
    by (simp add: fullBlock_def blockOf_def)
  have txs: "blk_transactions fullBlock = exampleCoinbase 5 # replicate 25 emptySpend"
    by (simp add: fullBlock_def blockOf_def)
  have cb: "tx_isCoinbase (exampleCoinbase 5)" "tx_inputs (exampleCoinbase 5) = []"
    by (simp_all add: exampleCoinbase_def)
  have spends: "list_all (\<lambda>t. tx_isCoinbase t = False \<and> tx_inputs t = [] \<and> tx_outputs t = [])
                  (replicate 25 emptySpend)"
    by (simp add: list_all_iff emptySpend_def)
  have merkle: "blk_merkleRoot fullBlock
                  = merkleRoot exampleEnv (map tx_id (exampleCoinbase 5 # replicate 25 emptySpend))"
    by (simp only: merkleRoot_full) (simp add: fullBlock_def blockOf_def)
  have pow: "hashMeetsBits (headerHash exampleEnv fullBlock) (blk_bits fullBlock) = Inr True"
    by (simp add: fullBlock_def blockOf_pow)
  have amount: "sum_list (map out_amount (tx_outputs (exampleCoinbase 5)))
                  \<le> getBlockReward (st_config exampleState) (blk_index fullBlock)"
    by (simp add: fullBlock_def blockOf_def reward_example) (simp add: exampleCoinbase_def)
  have ok: "validateBlock exampleEnv 0 exampleState fullBlock = Inr ()"
    by (rule validateBlock_coinbase_and_empty_spends [OF link ts txs cb spends merkle pow amount])
  have len: "length (blk_transactions fullBlock) = 26"
    by (simp add: txs)
  have lim: "maxBlockTx (st_config exampleState) = 25"
    by (simp add: exampleState_def defaultConfig_def)
  obtain c where c: "candidate exampleEnv 0
              (exampleState\<lparr>st_config := (st_config exampleState)\<lparr>maxBlockTx := 3\<rparr>\<rparr>) ''0a'' = Inr c"
    by (simp add: candidate_def exampleState_def Let_def)
  from validateBlock_ignores_maxBlockTx [OF ok, of 3] c ok len lim show ?thesis
    by auto
qed

end
